theory Spec2Isabelle
  imports Complex_Main
begin

section \<open>Text primitives\<close>

text \<open>
  Python strings are modelled as lists of 8-bit characters read as ASCII code points.
  Whitespace is what \<open>str.isspace\<close>, \<open>str.strip\<close>, \<open>str.split\<close> and the regular
  expression class \<open>\s\<close> accept in that range; case conversion acts on the ASCII letters.
\<close>

definition code :: "char \<Rightarrow> nat" where
  "code c = of_char c"

definition isspace :: "char \<Rightarrow> bool" where
  "isspace c = ((9 \<le> code c \<and> code c \<le> 13) \<or> (28 \<le> code c \<and> code c \<le> 32))"

definition isdigit :: "char \<Rightarrow> bool" where
  "isdigit c = (48 \<le> code c \<and> code c \<le> 57)"

definition is_AZ :: "char \<Rightarrow> bool" where
  "is_AZ c = (65 \<le> code c \<and> code c \<le> 90)"

definition upper_char :: "char \<Rightarrow> char" where
  "upper_char c = (if 97 \<le> code c \<and> code c \<le> 122
                   then ''ABCDEFGHIJKLMNOPQRSTUVWXYZ'' ! (code c - 97) else c)"

definition lower_char :: "char \<Rightarrow> char" where
  "lower_char c = (if 65 \<le> code c \<and> code c \<le> 90
                   then ''abcdefghijklmnopqrstuvwxyz'' ! (code c - 65) else c)"

definition upper :: "string \<Rightarrow> string" where
  "upper s = map upper_char s"

definition lower :: "string \<Rightarrow> string" where
  "lower s = map lower_char s"

definition strip :: "string \<Rightarrow> string" where
  "strip s = rev (dropWhile isspace (rev (dropWhile isspace s)))"

text \<open>\<open>str.split()\<close> without arguments: the maximal runs of non-whitespace characters.\<close>

fun split_acc :: "string \<Rightarrow> string \<Rightarrow> string list" where
  "split_acc cur [] = (if cur = [] then [] else [cur])"
| "split_acc cur (c # cs) =
     (if isspace c then (if cur = [] then split_acc [] cs else cur # split_acc [] cs)
      else split_acc (cur @ [c]) cs)"

definition split_ws :: "string \<Rightarrow> string list" where
  "split_ws s = split_acc [] s"

definition startswith :: "string \<Rightarrow> string \<Rightarrow> bool" where
  "startswith s p = (take (length p) s = p)"

text \<open>\<open>sep.join(parts)\<close>.\<close>

fun join :: "string \<Rightarrow> string list \<Rightarrow> string" where
  "join sep [] = []"
| "join sep [p] = p"
| "join sep (p # q # ps) = p @ sep @ join sep (q # ps)"

text \<open>\<open>s.split(sep)\<close> for a one-character separator: empty fields are kept.\<close>

fun split_on_acc :: "char \<Rightarrow> string \<Rightarrow> string \<Rightarrow> string list" where
  "split_on_acc d cur [] = [cur]"
| "split_on_acc d cur (c # cs) =
     (if c = d then cur # split_on_acc d [] cs else split_on_acc d (cur @ [c]) cs)"

definition split_on :: "char \<Rightarrow> string \<Rightarrow> string list" where
  "split_on d s = split_on_acc d [] s"

section \<open>Data model\<close>

text \<open>
  A naive \<open>datetime\<close> as its fields. The difference of two datetimes is taken as Python
  does: through the proleptic Gregorian ordinal of the date and the time of day; the
  \<open>days\<close> attribute of the difference is the floor of the difference in days.
\<close>

record datetime =
  dt_year :: nat
  dt_month :: nat
  dt_day :: nat
  dt_hour :: nat
  dt_minute :: nat
  dt_second :: nat
  dt_microsecond :: nat

definition is_leap :: "nat \<Rightarrow> bool" where
  "is_leap y = (y mod 4 = 0 \<and> (y mod 100 \<noteq> 0 \<or> y mod 400 = 0))"

definition days_before_year :: "nat \<Rightarrow> int" where
  "days_before_year y =
     (let p = int y - 1 in p * 365 + p div 4 - p div 100 + p div 400)"

definition days_before_month :: "nat \<Rightarrow> nat \<Rightarrow> int" where
  "days_before_month y m =
     int ([0, 0, 31, 59, 90, 120, 151, 181, 212, 243, 273, 304, 334] ! (min m 12))
       + (if 2 < m \<and> is_leap y then 1 else 0)"

definition toordinal :: "datetime \<Rightarrow> int" where
  "toordinal d = days_before_year (dt_year d) + days_before_month (dt_year d) (dt_month d)
                   + int (dt_day d)"

definition total_microseconds :: "datetime \<Rightarrow> int" where
  "total_microseconds d =
     (toordinal d * 86400 + int (dt_hour d) * 3600 + int (dt_minute d) * 60 + int (dt_second d))
        * 1000000 + int (dt_microsecond d)"

definition delta_days :: "datetime \<Rightarrow> datetime \<Rightarrow> int" where
  "delta_days a b = (total_microseconds a - total_microseconds b) div 86400000000"

text \<open>
  The two tables. Amounts are \<open>Float\<close> columns; they are modelled as rationals, so that
  sums and comparisons are exact. Every column but the keys is nullable. Of the ledger
  table only the columns read by the reconciliation code are kept.
\<close>

record bank_transaction =
  bt_id :: nat
  bt_user_id :: nat
  bt_upload_batch_id :: "string option"
  bt_date :: "datetime option"
  bt_description :: "string option"
  bt_amount :: "rat option"
  bt_balance :: "rat option"
  bt_transaction_type :: "string option"
  bt_reference_number :: "string option"
  bt_category :: "string option"
  bt_merchant_name :: "string option"
  bt_is_matched :: "bool option"
  bt_matched_transaction_id :: "nat option"
  bt_match_confidence :: "rat option"
  bt_match_type :: "string option"

record transaction =
  lt_id :: nat
  lt_user_id :: nat
  lt_merchant_name :: "string option"
  lt_amount :: "rat option"
  lt_transaction_date :: "datetime option"
  lt_category :: "string option"
  lt_description :: "string option"

record transaction_match =
  tm_ledger_transaction :: "transaction option"
  tm_bank_transaction :: "bank_transaction option"
  tm_match_type :: string
  tm_confidence :: rat

text \<open>Python truthiness of an optional string: present and not empty.\<close>

definition truthy :: "string option \<Rightarrow> bool" where
  "truthy s = (case s of None \<Rightarrow> False | Some t \<Rightarrow> t \<noteq> [])"

section \<open>Match confidence\<close>

text \<open>\<open>_calculate_string_similarity\<close>: Jaccard index of the two word sets.\<close>

definition calculate_string_similarity :: "string \<Rightarrow> string \<Rightarrow> rat" where
  "calculate_string_similarity str1 str2 =
     (if str1 = [] \<or> str2 = [] then 0
      else let words1 = set (split_ws str1); words2 = set (split_ws str2)
           in if words1 = {} \<or> words2 = {} then 0
              else if words1 \<union> words2 = {} then 0
              else of_nat (card (words1 \<inter> words2)) / of_nat (card (words1 \<union> words2)))"

definition amount_score :: "rat option \<Rightarrow> rat option \<Rightarrow> rat" where
  "amount_score la ba =
     (case (la, ba) of
        (Some x, Some y) \<Rightarrow>
          if \<bar>x - y\<bar> < 1 / 100 then 4 / 10
          else if \<bar>x - y\<bar> < 1 / 10 then 2 / 10 else 0
      | _ \<Rightarrow> 0)"

definition date_score :: "datetime option \<Rightarrow> datetime option \<Rightarrow> rat" where
  "date_score ld bd =
     (case (ld, bd) of
        (Some x, Some y) \<Rightarrow>
          (let date_diff = \<bar>delta_days x y\<bar>
           in if date_diff = 0 then 3 / 10
              else if date_diff \<le> 1 then 2 / 10
              else if date_diff \<le> 3 then 1 / 10 else 0)
      | _ \<Rightarrow> 0)"

definition description_score :: "string option \<Rightarrow> string option \<Rightarrow> rat" where
  "description_score ld bd =
     (if truthy ld \<and> truthy bd
      then calculate_string_similarity (lower (the ld)) (lower (the bd)) * (2 / 10)
      else 0)"

definition category_score :: "string option \<Rightarrow> string option \<Rightarrow> rat" where
  "category_score lc bc =
     (if truthy lc \<and> truthy bc
      then (if lower (the lc) = lower (the bc) then 1 / 10 else 0)
      else 0)"

text \<open>\<open>_calculate_match_confidence\<close>: the four additions in the source's order, then the cap.\<close>

definition calculate_match_confidence :: "transaction \<Rightarrow> bank_transaction \<Rightarrow> rat" where
  "calculate_match_confidence ledger_tx bank_tx =
     (let confidence = 0;
          confidence = confidence + amount_score (lt_amount ledger_tx) (bt_amount bank_tx);
          confidence = confidence + date_score (lt_transaction_date ledger_tx) (bt_date bank_tx);
          confidence = confidence
                         + description_score (lt_description ledger_tx) (bt_description bank_tx);
          confidence = confidence + category_score (lt_category ledger_tx) (bt_category bank_tx)
      in min confidence 1)"

text \<open>
  The external verification call of \<open>_ai_verify_match\<close>. What comes back is not under
  the program's control: the call raises, or answers text that does not parse as a
  number, or answers a number. The environment is a function from the pair to the reply.
\<close>

datatype verify_reply = CallFailed | Unparseable | Number rat

type_synonym verifier = "transaction \<Rightarrow> bank_transaction \<Rightarrow> verify_reply"

definition ai_verify_match :: "verifier \<Rightarrow> transaction \<Rightarrow> bank_transaction \<Rightarrow> rat" where
  "ai_verify_match ext ledger_tx bank_tx =
     (case ext ledger_tx bank_tx of
        Number confidence \<Rightarrow> max 0 (min 1 confidence)
      | Unparseable \<Rightarrow> 1 / 2
      | CallFailed \<Rightarrow> 1 / 2)"

definition ai_calculate_match_confidence ::
  "verifier \<Rightarrow> transaction \<Rightarrow> bank_transaction \<Rightarrow> rat" where
  "ai_calculate_match_confidence ext ledger_tx bank_tx =
     (let basic_confidence = calculate_match_confidence ledger_tx bank_tx
      in if basic_confidence > 1 / 2
         then basic_confidence * (6 / 10) + ai_verify_match ext ledger_tx bank_tx * (4 / 10)
         else basic_confidence)"

section \<open>The greedy matchers\<close>

text \<open>
  \<open>_match_transactions\<close> and \<open>_ai_enhanced_match_transactions\<close> are the same two nested
  loops; they differ in the score function and in the threshold only, which are the
  parameters \<open>score\<close> and \<open>thr\<close> here. The inner loop carries \<open>(best_match,
  best_confidence)\<close>, the outer one \<open>(matched, ledger_only, matched_bank_ids)\<close>.
\<close>

fun scan_banks ::
  "(bank_transaction \<Rightarrow> rat) \<Rightarrow> rat \<Rightarrow> nat set \<Rightarrow> bank_transaction list
     \<Rightarrow> bank_transaction option \<times> rat \<Rightarrow> bank_transaction option \<times> rat" where
  "scan_banks score thr matched_bank_ids [] st = st"
| "scan_banks score thr matched_bank_ids (bank_tx # rest) (best_match, best_confidence) =
     (if bt_id bank_tx \<in> matched_bank_ids
      then scan_banks score thr matched_bank_ids rest (best_match, best_confidence)
      else let confidence = score bank_tx
           in if confidence > best_confidence \<and> confidence > thr
              then scan_banks score thr matched_bank_ids rest (Some bank_tx, confidence)
              else scan_banks score thr matched_bank_ids rest (best_match, best_confidence))"

definition mk_matched :: "transaction \<Rightarrow> bank_transaction \<Rightarrow> rat \<Rightarrow> transaction_match" where
  "mk_matched l b c =
     \<lparr>tm_ledger_transaction = Some l, tm_bank_transaction = Some b,
      tm_match_type = ''matched'', tm_confidence = c\<rparr>"

definition mk_ledger_only :: "transaction \<Rightarrow> transaction_match" where
  "mk_ledger_only l =
     \<lparr>tm_ledger_transaction = Some l, tm_bank_transaction = None,
      tm_match_type = ''ledger_only'', tm_confidence = 0\<rparr>"

definition mk_bank_only :: "bank_transaction \<Rightarrow> transaction_match" where
  "mk_bank_only b =
     \<lparr>tm_ledger_transaction = None, tm_bank_transaction = Some b,
      tm_match_type = ''bank_only'', tm_confidence = 0\<rparr>"

fun match_ledgers ::
  "(transaction \<Rightarrow> bank_transaction \<Rightarrow> rat) \<Rightarrow> rat \<Rightarrow> bank_transaction list
     \<Rightarrow> transaction list
     \<Rightarrow> transaction_match list \<times> transaction_match list \<times> nat set
     \<Rightarrow> transaction_match list \<times> transaction_match list \<times> nat set" where
  "match_ledgers score thr banks [] st = st"
| "match_ledgers score thr banks (ledger_tx # rest) (matched, ledger_only, matched_bank_ids) =
     (case scan_banks (score ledger_tx) thr matched_bank_ids banks (None, 0) of
        (Some best_match, best_confidence) \<Rightarrow>
          match_ledgers score thr banks rest
            (matched @ [mk_matched ledger_tx best_match best_confidence], ledger_only,
             insert (bt_id best_match) matched_bank_ids)
      | (None, _) \<Rightarrow>
          match_ledgers score thr banks rest
            (matched, ledger_only @ [mk_ledger_only ledger_tx], matched_bank_ids))"

definition greedy_match ::
  "(transaction \<Rightarrow> bank_transaction \<Rightarrow> rat) \<Rightarrow> rat \<Rightarrow> transaction list
     \<Rightarrow> bank_transaction list
     \<Rightarrow> transaction_match list \<times> transaction_match list \<times> transaction_match list" where
  "greedy_match score thr ledger_transactions bank_transactions =
     (case match_ledgers score thr bank_transactions ledger_transactions ([], [], {}) of
        (matched, ledger_only, matched_bank_ids) \<Rightarrow>
          (matched, ledger_only,
           map mk_bank_only
             (filter (\<lambda>bank_tx. bt_id bank_tx \<notin> matched_bank_ids) bank_transactions)))"

definition match_transactions ::
  "transaction list \<Rightarrow> bank_transaction list
     \<Rightarrow> transaction_match list \<times> transaction_match list \<times> transaction_match list" where
  "match_transactions = greedy_match calculate_match_confidence (7 / 10)"

definition ai_enhanced_match_transactions ::
  "verifier \<Rightarrow> transaction list \<Rightarrow> bank_transaction list
     \<Rightarrow> transaction_match list \<times> transaction_match list \<times> transaction_match list" where
  "ai_enhanced_match_transactions ext =
     greedy_match (ai_calculate_match_confidence ext) (6 / 10)"

section \<open>Amount parser\<close>

text \<open>
  \<open>Decimal(cleaned)\<close> on a string made of digits, \<open>.\<close> and \<open>-\<close> only: an optional
  leading minus, then digits with at most one point and at least one digit. Anything else
  raises \<open>InvalidOperation\<close>, which is \<open>None\<close> here.
\<close>

definition digits_value :: "string \<Rightarrow> nat" where
  "digits_value ds = foldl (\<lambda>n c. 10 * n + (code c - 48)) 0 ds"

definition parse_unsigned :: "string \<Rightarrow> rat option" where
  "parse_unsigned body =
     (let ip = takeWhile isdigit body; r = dropWhile isdigit body
      in case r of
           [] \<Rightarrow> if ip = [] then None else Some (of_nat (digits_value ip))
         | c # fr \<Rightarrow>
             if c = CHR ''.'' \<and> list_all isdigit fr \<and> (ip \<noteq> [] \<or> fr \<noteq> [])
             then Some (of_nat (digits_value ip) + of_nat (digits_value fr) / 10 ^ length fr)
             else None)"

definition parse_decimal :: "string \<Rightarrow> rat option" where
  "parse_decimal s =
     (case s of
        c # body \<Rightarrow>
          if c = CHR ''-'' then map_option uminus (parse_unsigned body) else parse_unsigned s
      | [] \<Rightarrow> None)"

text \<open>
  \<open>_parse_amount_improved\<close>. Of the currency symbols of the first substitution only the
  dollar sign is an ASCII character. The result is the value of the decimal; the
  narrowing to a binary float is not modelled.
\<close>

definition parse_amount_improved :: "string \<Rightarrow> rat option" where
  "parse_amount_improved amount_str =
     (if amount_str = [] then None
      else
        let cleaned = strip amount_str;
            cleaned = filter (\<lambda>c. c \<noteq> CHR ''$'') cleaned;
            cleaned = filter (\<lambda>c. c \<noteq> CHR '','') cleaned;
            cleaned = (if CHR ''('' \<in> set cleaned \<and> CHR '')'' \<in> set cleaned
                       then filter (\<lambda>c. c \<noteq> CHR '')'')
                              (map (\<lambda>c. if c = CHR ''('' then CHR ''-'' else c) cleaned)
                       else cleaned);
            cleaned = filter (\<lambda>c. isdigit c \<or> c = CHR ''.'' \<or> c = CHR ''-'') cleaned;
            cleaned = (if length (filter (\<lambda>c. c = CHR ''.'') cleaned) > 1
                       then let parts = split_on (CHR ''.'') cleaned
                            in join ''.'' (butlast parts) @ ''.'' @ last parts
                       else cleaned)
        in parse_decimal cleaned)"


section \<open>Duplicate grouper and merger\<close>

text \<open>Decimal digits of a natural number.\<close>

fun show_nat :: "nat \<Rightarrow> string" where
  "show_nat n = (if n < 10 then [''0123456789'' ! n]
                 else show_nat (n div 10) @ [''0123456789'' ! (n mod 10)])"

definition zero_pad :: "nat \<Rightarrow> string \<Rightarrow> string" where
  "zero_pad w s = replicate (w - length s) (CHR ''0'') @ s"

text \<open>Rounding of a non-negative rational to the nearest integer, ties to the even one.\<close>

definition round_half_even :: "rat \<Rightarrow> nat" where
  "round_half_even x =
     (let f = \<lfloor>x\<rfloor>; r = x - of_int f
      in nat (if r < 1 / 2 then f else if 1 / 2 < r then f + 1
              else if even f then f else f + 1))"

text \<open>The format \<open>{:.2f}\<close>.\<close>

definition format_2f :: "rat \<Rightarrow> string" where
  "format_2f x =
     (let n = round_half_even (\<bar>x\<bar> * 100)
      in (if x < 0 then ''-'' else '''') @ show_nat (n div 100) @ ''.''
           @ zero_pad 2 (show_nat (n mod 100)))"

text \<open>\<open>strftime("%Y-%m-%d")\<close>, for years of up to four digits.\<close>

definition strftime_ymd :: "datetime \<Rightarrow> string" where
  "strftime_ymd d =
     zero_pad 4 (show_nat (dt_year d)) @ ''-'' @ zero_pad 2 (show_nat (dt_month d)) @ ''-''
       @ zero_pad 2 (show_nat (dt_day d))"

text \<open>
  The two substitutions of \<open>_clean_description_for_grouping\<close>. Both patterns end with
  \<open>$\<close> and are applied to a string without trailing whitespace, so a match is a suffix
  of the string; the leftmost suffix that matches is removed.
  \<open>matches_state_suffix\<close> is the pattern \<open>\s+[A-Z]{2}\s*\d*\<close> against a whole string,
  \<open>matches_digits_suffix\<close> the pattern \<open>\s+\d{4,}\<close>.
\<close>

definition matches_state_suffix :: "string \<Rightarrow> bool" where
  "matches_state_suffix t =
     (let t1 = dropWhile isspace t
      in t1 \<noteq> t \<and>
         (case t1 of
            a # b # r \<Rightarrow> is_AZ a \<and> is_AZ b \<and> dropWhile isdigit (dropWhile isspace r) = []
          | _ \<Rightarrow> False))"

definition matches_digits_suffix :: "string \<Rightarrow> bool" where
  "matches_digits_suffix t =
     (let t1 = dropWhile isspace t
      in t1 \<noteq> t \<and> 4 \<le> length t1 \<and> list_all isdigit t1)"

fun remove_suffix_match :: "(string \<Rightarrow> bool) \<Rightarrow> string \<Rightarrow> string" where
  "remove_suffix_match p [] = []"
| "remove_suffix_match p (c # cs) = (if p (c # cs) then [] else c # remove_suffix_match p cs)"

definition remove_prefix :: "string \<Rightarrow> string \<Rightarrow> string" where
  "remove_prefix cleaned prefix =
     (if startswith cleaned prefix then strip (drop (length prefix) cleaned) else cleaned)"

definition clean_description_for_grouping :: "string \<Rightarrow> string" where
  "clean_description_for_grouping description =
     (if description = [] then []
      else
        let cleaned = strip (upper description);
            cleaned = foldl remove_prefix cleaned
                        [''POS'', ''VISA'', ''MC'', ''DEBIT'', ''CREDIT'', ''ATM'', ''CHECK''];
            cleaned = remove_suffix_match matches_state_suffix cleaned;
            cleaned = remove_suffix_match matches_digits_suffix cleaned
        in strip cleaned)"

definition group_key :: "bank_transaction \<Rightarrow> string" where
  "group_key tx =
     (let amount_key = (case bt_amount tx of
                          None \<Rightarrow> ''0.00''
                        | Some a \<Rightarrow> if a = 0 then ''0.00'' else format_2f a);
          date_key = (case bt_date tx of None \<Rightarrow> ''unknown'' | Some d \<Rightarrow> strftime_ymd d);
          clean_desc = clean_description_for_grouping
                         (case bt_description tx of None \<Rightarrow> '''' | Some d \<Rightarrow> d)
      in amount_key @ ''_'' @ date_key @ ''_'' @ take 50 clean_desc)"

text \<open>
  The \<open>defaultdict(list)\<close> of \<open>_group_potential_duplicates\<close> as an association list in
  insertion order of the keys.
\<close>

fun add_to_group ::
  "string \<Rightarrow> bank_transaction \<Rightarrow> (string \<times> bank_transaction list) list
     \<Rightarrow> (string \<times> bank_transaction list) list" where
  "add_to_group k tx [] = [(k, [tx])]"
| "add_to_group k tx ((k', v) # rest) =
     (if k = k' then (k', v @ [tx]) # rest else (k', v) # add_to_group k tx rest)"

definition group_potential_duplicates ::
  "bank_transaction list \<Rightarrow> (string \<times> bank_transaction list) list" where
  "group_potential_duplicates transactions =
     (let groups = foldl (\<lambda>groups tx. add_to_group (group_key tx) tx groups) [] transactions
      in filter (\<lambda>(k, v). length v > 1) groups)"

text \<open>
  The verdict of a duplicate analysis. The free-text fields \<open>reasoning\<close> and
  \<open>recommended_action\<close> are not read by the merger and are left out.
\<close>

record analysis =
  are_duplicates :: bool
  an_confidence :: rat

definition fallback_duplicate_analysis :: "bank_transaction list \<Rightarrow> analysis" where
  "fallback_duplicate_analysis transactions =
     (case transactions of
        [tx1, tx2] \<Rightarrow>
          (let exact_match = (bt_amount tx1 = bt_amount tx2 \<and> bt_date tx1 = bt_date tx2
                               \<and> bt_description tx1 = bt_description tx2)
           in if exact_match then \<lparr>are_duplicates = True, an_confidence = 1\<rparr>
              else
                let amount_match =
                      (case (bt_amount tx1, bt_amount tx2) of
                         (Some a1, Some a2) \<Rightarrow>
                           if a1 \<noteq> 0 \<and> a2 \<noteq> 0 then \<bar>a1 - a2\<bar> < 1 / 100 else False
                       | _ \<Rightarrow> False);
                    date_match = (bt_date tx1 = bt_date tx2);
                    desc_similarity =
                      calculate_string_similarity
                        (case bt_description tx1 of None \<Rightarrow> '''' | Some d \<Rightarrow> d)
                        (case bt_description tx2 of None \<Rightarrow> '''' | Some d \<Rightarrow> d)
                in if amount_match \<and> date_match \<and> desc_similarity > 8 / 10
                   then \<lparr>are_duplicates = True, an_confidence = 9 / 10\<rparr>
                   else \<lparr>are_duplicates = False, an_confidence = 0\<rparr>)
      | _ \<Rightarrow> \<lparr>are_duplicates = False, an_confidence = 0\<rparr>)"

text \<open>
  \<open>_analyze_duplicates_with_ai\<close>. The external confirmation call, with the parsing of
  its reply, is a function from the group to the parsed verdict; \<open>None\<close> is the call
  raising, which sends the group to the fallback.
\<close>

type_synonym confirmer = "bank_transaction list \<Rightarrow> analysis option"

definition analyze_duplicates_with_ai :: "confirmer \<Rightarrow> bank_transaction list \<Rightarrow> analysis" where
  "analyze_duplicates_with_ai ai transactions =
     (if length transactions < 2 then \<lparr>are_duplicates = False, an_confidence = 0\<rparr>
      else case ai transactions of
             Some a \<Rightarrow> a
           | None \<Rightarrow> fallback_duplicate_analysis transactions)"

text \<open>The confirmer that always fails: the deterministic fallback decides every group.\<close>

definition ai_unavailable :: confirmer where
  "ai_unavailable transactions = None"

datatype error = ValueError string

text \<open>
  \<open>_merge_duplicate_transactions\<close>. \<open>order\<close> is the order in which Python iterates the
  set of descriptions; \<open>new_id\<close> is the key the store gives the new row on \<open>flush\<close>.
  The dictionary \<open>merged_data\<close> has no \<open>description\<close> entry unless the members'
  descriptions differ, and a column without an entry is null in the new row.
\<close>

definition merge_duplicate_transactions ::
  "(string list \<Rightarrow> string list) \<Rightarrow> nat \<Rightarrow> bank_transaction list
     \<Rightarrow> error + bank_transaction" where
  "merge_duplicate_transactions order new_id transactions =
     (case transactions of
        [] \<Rightarrow> Inl (ValueError ''No transactions to merge'')
      | base_tx # _ \<Rightarrow>
          let descriptions = map (\<lambda>tx. the (bt_description tx))
                               (filter (\<lambda>tx. truthy (bt_description tx)) transactions);
              description = (if length (remdups descriptions) > 1
                             then Some (join '' | '' (order (remdups descriptions)))
                             else None);
              categories = map (\<lambda>tx. the (bt_category tx))
                             (filter (\<lambda>tx. truthy (bt_category tx)
                                           \<and> bt_category tx \<noteq> Some ''N/A'') transactions);
              category = (case categories of [] \<Rightarrow> bt_category base_tx | c # _ \<Rightarrow> Some c);
              merchant_names = map (\<lambda>tx. the (bt_merchant_name tx))
                                 (filter (\<lambda>tx. truthy (bt_merchant_name tx)
                                               \<and> bt_merchant_name tx \<noteq> Some ''Unknown'')
                                    transactions);
              merchant_name = (case merchant_names of
                                 [] \<Rightarrow> bt_merchant_name base_tx
                               | m # _ \<Rightarrow> Some m)
          in Inr \<lparr>bt_id = new_id,
                  bt_user_id = bt_user_id base_tx,
                  bt_upload_batch_id = bt_upload_batch_id base_tx,
                  bt_date = bt_date base_tx,
                  bt_description = description,
                  bt_amount = bt_amount base_tx,
                  bt_balance = bt_balance base_tx,
                  bt_transaction_type = bt_transaction_type base_tx,
                  bt_reference_number = bt_reference_number base_tx,
                  bt_category = category,
                  bt_merchant_name = merchant_name,
                  bt_is_matched = bt_is_matched base_tx,
                  bt_matched_transaction_id = bt_matched_transaction_id base_tx,
                  bt_match_confidence = bt_match_confidence base_tx,
                  bt_match_type = bt_match_type base_tx\<rparr>)"

text \<open>
  The store: the rows of the bank table in the order a query returns them, and the next
  primary key. \<open>detect_and_merge_duplicates\<close> threads it through the loop over the groups.
\<close>

record store =
  rows :: "bank_transaction list"
  next_id :: nat

record duplicate_summary =
  total_transactions :: nat
  duplicate_groups_found :: nat
  transactions_merged :: nat
  transactions_deleted :: nat
  groups_processed :: "(string \<times> nat \<times> rat \<times> nat) list"

definition query_transactions :: "store \<Rightarrow> nat \<Rightarrow> string option \<Rightarrow> bank_transaction list" where
  "query_transactions db user_id batch_id =
     filter (\<lambda>tx. bt_user_id tx = user_id
                  \<and> (truthy batch_id \<longrightarrow> bt_upload_batch_id tx = batch_id)) (rows db)"

definition delete_all :: "bank_transaction list \<Rightarrow> store \<Rightarrow> store" where
  "delete_all txs db = db\<lparr>rows := filter (\<lambda>r. bt_id r \<notin> bt_id ` set txs) (rows db)\<rparr>"

fun process_groups ::
  "confirmer \<Rightarrow> (string list \<Rightarrow> string list) \<Rightarrow> (string \<times> bank_transaction list) list
     \<Rightarrow> store \<times> duplicate_summary \<times> bank_transaction list
     \<Rightarrow> error + (store \<times> duplicate_summary \<times> bank_transaction list)" where
  "process_groups ai order [] st = Inr st"
| "process_groups ai order ((group_id, group_transactions) # rest) (db, summary, merged) =
     (if length group_transactions > 1
      then
        let ai_analysis = analyze_duplicates_with_ai ai group_transactions
        in if are_duplicates ai_analysis
           then
             (case merge_duplicate_transactions order (next_id db) group_transactions of
                Inl e \<Rightarrow> Inl e
              | Inr merged_tx \<Rightarrow>
                  let db = db\<lparr>rows := rows db @ [merged_tx], next_id := Suc (next_id db)\<rparr>;
                      db = delete_all group_transactions db;
                      summary = summary
                        \<lparr>transactions_merged :=
                           transactions_merged summary + length group_transactions,
                         transactions_deleted :=
                           transactions_deleted summary + (length group_transactions - 1),
                         groups_processed := groups_processed summary
                           @ [(group_id, length group_transactions, an_confidence ai_analysis,
                               bt_id merged_tx)]\<rparr>
                  in process_groups ai order rest (db, summary, merged @ [merged_tx]))
           else process_groups ai order rest (db, summary, merged)
      else process_groups ai order rest (db, summary, merged))"

definition detect_and_merge_duplicates ::
  "confirmer \<Rightarrow> (string list \<Rightarrow> string list) \<Rightarrow> store \<Rightarrow> nat \<Rightarrow> string option
     \<Rightarrow> error + (store \<times> duplicate_summary \<times> bank_transaction list)" where
  "detect_and_merge_duplicates ai order db user_id batch_id =
     (let transactions = query_transactions db user_id batch_id;
          duplicate_groups = group_potential_duplicates transactions;
          summary = \<lparr>total_transactions = length transactions,
                     duplicate_groups_found = length duplicate_groups,
                     transactions_merged = 0, transactions_deleted = 0,
                     groups_processed = []\<rparr>
      in process_groups ai order duplicate_groups (db, summary, []))"

section \<open>Ingestion of an upload\<close>

text \<open>
  \<open>process_csv_upload\<close> and \<open>_parse_csv_traditional\<close>. What the program does not decide
  is gathered in an environment: the UTF-8 decoder (\<open>Inl\<close> is the message of the decoding
  error), the assisted parse (\<open>_parse_csv_with_openai\<close>, which catches every failure and
  then answers the empty list), the delimiter sniffer and the dictionary reader of the
  \<open>csv\<close> library (\<open>None\<close> is a raised error), the normalisation of a raw row
  (\<open>None\<close> is a raised error), the two tests that skip a row, and the cleaning and
  storing of one candidate row, whose outcome is all the response depends on.
\<close>

datatype import_outcome = Imported | Invalid | Raised string

record ('raw, 'row) ingest_env =
  decode :: "string \<Rightarrow> string + string"
  parse_csv_with_openai :: "string \<Rightarrow> 'row list"
  sniff :: "string \<Rightarrow> char option"
  dict_reader :: "char \<Rightarrow> string \<Rightarrow> 'raw list option"
  normalize_csv_row :: "'raw \<Rightarrow> 'row option"
  has_value :: "'row \<Rightarrow> bool"
  is_header_row :: "'row \<Rightarrow> bool"
  import_row :: "nat \<Rightarrow> 'row \<Rightarrow> import_outcome"

record csv_upload_response =
  resp_batch_id :: string
  resp_total_transactions :: nat
  resp_successful_imports :: nat
  resp_failed_imports :: nat
  resp_errors :: "string list"

text \<open>Decoding no bytes gives the empty text.\<close>

definition bytes_decode :: "('raw, 'row) ingest_env \<Rightarrow> string \<Rightarrow> string + string" where
  "bytes_decode env content = (if content = [] then Inr [] else decode env content)"

text \<open>On an empty sample the sniffer finds no delimiter and raises.\<close>

definition sniffer_sniff :: "('raw, 'row) ingest_env \<Rightarrow> string \<Rightarrow> char option" where
  "sniffer_sniff env sample = (if sample = [] then None else sniff env sample)"

definition keep_row :: "('raw, 'row) ingest_env \<Rightarrow> 'raw \<Rightarrow> 'row option" where
  "keep_row env row =
     (case normalize_csv_row env row of
        None \<Rightarrow> None
      | Some normalized_row \<Rightarrow>
          if \<not> has_value env normalized_row then None
          else if is_header_row env normalized_row then None
          else Some normalized_row)"

definition parse_csv_traditional :: "('raw, 'row) ingest_env \<Rightarrow> string \<Rightarrow> 'row list" where
  "parse_csv_traditional env csv_text =
     (case sniffer_sniff env (take 1024 csv_text) of
        None \<Rightarrow> []
      | Some delimiter \<Rightarrow>
          (case dict_reader env delimiter csv_text of
             None \<Rightarrow> []
           | Some reader \<Rightarrow> List.map_filter (keep_row env) reader))"

fun import_rows ::
  "('raw, 'row) ingest_env \<Rightarrow> nat \<Rightarrow> 'row list \<Rightarrow> nat \<times> nat \<times> string list
     \<Rightarrow> nat \<times> nat \<times> string list" where
  "import_rows env i [] st = st"
| "import_rows env i (transaction_data # rest) (successful_imports, failed_imports, errors) =
     (case import_row env i transaction_data of
        Imported \<Rightarrow>
          import_rows env (Suc i) rest (successful_imports + 1, failed_imports, errors)
      | Invalid \<Rightarrow>
          import_rows env (Suc i) rest
            (successful_imports, failed_imports + 1,
             errors @ [''Row '' @ show_nat (i + 1) @ '': Invalid transaction data''])
      | Raised e \<Rightarrow>
          import_rows env (Suc i) rest
            (successful_imports, failed_imports + 1,
             errors @ [''Row '' @ show_nat (i + 1) @ '': '' @ e]))"

definition process_csv_upload ::
  "('raw, 'row) ingest_env \<Rightarrow> string \<Rightarrow> string \<Rightarrow> csv_upload_response" where
  "process_csv_upload env batch_id csv_content =
     (case bytes_decode env csv_content of
        Inl e \<Rightarrow>
          \<lparr>resp_batch_id = batch_id, resp_total_transactions = 0,
           resp_successful_imports = 0, resp_failed_imports = 1,
           resp_errors = [''CSV parsing error: '' @ e]\<rparr>
      | Inr csv_text \<Rightarrow>
          let transactions_data = parse_csv_with_openai env csv_text;
              transactions_data = (if transactions_data = []
                                   then parse_csv_traditional env csv_text
                                   else transactions_data)
          in case import_rows env 0 transactions_data (0, 0, []) of
               (successful_imports, failed_imports, errors) \<Rightarrow>
                 \<lparr>resp_batch_id = batch_id,
                  resp_total_transactions = length transactions_data,
                  resp_successful_imports = successful_imports,
                  resp_failed_imports = failed_imports,
                  resp_errors = take 10 errors\<rparr>)"

text \<open>
  An environment without outside help: the assisted parse fails, the decoder rejects
  every non-empty input and the library calls fail.
\<close>

definition offline_env :: "(string, string) ingest_env" where
  "offline_env =
     \<lparr>decode = (\<lambda>content. Inl ''invalid start byte''),
      parse_csv_with_openai = (\<lambda>csv_text. []),
      sniff = (\<lambda>sample. None),
      dict_reader = (\<lambda>delimiter csv_text. None),
      normalize_csv_row = (\<lambda>row. None),
      has_value = (\<lambda>row. False),
      is_header_row = (\<lambda>row. False),
      import_row = (\<lambda>i row. Invalid)\<rparr>"


section \<open>Specification vocabulary and sample records\<close>


definition all_matches ::
  "transaction_match list \<times> transaction_match list \<times> transaction_match list
     \<Rightarrow> transaction_match list" where
  "all_matches r = (case r of (matched, ledger_only, bank_only) \<Rightarrow> matched @ ledger_only @ bank_only)"




definition ex_date :: datetime where
  "ex_date = \<lparr>dt_year = 2024, dt_month = 1, dt_day = 15, dt_hour = 0, dt_minute = 0,
              dt_second = 0, dt_microsecond = 0\<rparr>"

definition mk_ledger :: "nat \<Rightarrow> string option \<Rightarrow> string option \<Rightarrow> transaction" where
  "mk_ledger i description category =
     \<lparr>lt_id = i, lt_user_id = 1, lt_merchant_name = None, lt_amount = Some (4567 / 100),
      lt_transaction_date = Some ex_date, lt_category = category,
      lt_description = description\<rparr>"

definition mk_bank :: "nat \<Rightarrow> string option \<Rightarrow> string option \<Rightarrow> bank_transaction" where
  "mk_bank i description category =
     \<lparr>bt_id = i, bt_user_id = 1, bt_upload_batch_id = None, bt_date = Some ex_date,
      bt_description = description, bt_amount = Some (4567 / 100), bt_balance = None,
      bt_transaction_type = Some ''debit'', bt_reference_number = None,
      bt_category = category, bt_merchant_name = None, bt_is_matched = Some False,
      bt_matched_transaction_id = None, bt_match_confidence = None, bt_match_type = None\<rparr>"

text \<open>A pair with the same amount and date and the same, empty, description.\<close>

definition ledger_blank :: transaction where
  "ledger_blank = mk_ledger 1 (Some []) None"

definition bank_blank :: bank_transaction where
  "bank_blank = mk_bank 1 (Some []) None"

text \<open>A ledger row and two bank rows that agree with it on every scored field.\<close>

definition ledger_safeway :: transaction where
  "ledger_safeway = mk_ledger 1 (Some ''SAFEWAY'') None"

definition bank_safeway :: bank_transaction where
  "bank_safeway = mk_bank 1 (Some ''SAFEWAY'') None"

definition bank_safeway_again :: bank_transaction where
  "bank_safeway_again = mk_bank 2 (Some ''SAFEWAY'') None"

text \<open>
  Two ledger rows for one bank row: the first scores 0.8 against it, the second 1.0.
\<close>

definition ledger_partial :: transaction where
  "ledger_partial = mk_ledger 1 (Some ''SAFEWAY STORE'') None"

definition ledger_exact :: transaction where
  "ledger_exact = mk_ledger 2 (Some ''SAFEWAY'') (Some ''food'')"

definition bank_food :: bank_transaction where
  "bank_food = mk_bank 1 (Some ''SAFEWAY'') (Some ''food'')"

text \<open>The verification call that always raises.\<close>

definition verifier_down :: verifier where
  "verifier_down l b = CallFailed"

text \<open>Two bank rows of the same amount and date that differ in a trailing reference.\<close>

definition safeway_123 :: bank_transaction where
  "safeway_123 = mk_bank 1 (Some ''SAFEWAY #123'') None"

definition safeway_456 :: bank_transaction where
  "safeway_456 = mk_bank 2 (Some ''SAFEWAY #456'') None"

text \<open>
  A store of four rows of one user, with the same amount and date. The first two are one
  statement line with and without its state code. The other two carry the description that
  a merge of those two lines produces, one for each order of the join, as an earlier merge
  of the same lines leaves it.
\<close>

definition resubmitted_store :: store where
  "resubmitted_store =
     \<lparr>rows = [mk_bank 11 (Some ''ACME TOOL SHOP MAIN PLAZA'') None,
              mk_bank 12 (Some ''ACME TOOL SHOP MAIN PLAZA CA'') None,
              mk_bank 13 (Some 
                 ''ACME TOOL SHOP MAIN PLAZA | ACME TOOL SHOP MAIN PLAZA CA'') None,
              mk_bank 14 (Some 
                 ''ACME TOOL SHOP MAIN PLAZA CA | ACME TOOL SHOP MAIN PLAZA'') None],
      next_id = 15\<rparr>"

text \<open>The store after the first run, for the two orders of the join.\<close>

definition store_after_forward :: store where
  "store_after_forward =
     \<lparr>rows = [mk_bank 13 (Some 
                 ''ACME TOOL SHOP MAIN PLAZA | ACME TOOL SHOP MAIN PLAZA CA'') None,
              mk_bank 14 (Some 
                 ''ACME TOOL SHOP MAIN PLAZA CA | ACME TOOL SHOP MAIN PLAZA'') None,
              mk_bank 15 (Some 
                 ''ACME TOOL SHOP MAIN PLAZA | ACME TOOL SHOP MAIN PLAZA CA'') None],
      next_id = 16\<rparr>"

definition store_after_backward :: store where
  "store_after_backward =
     \<lparr>rows = [mk_bank 13 (Some 
                 ''ACME TOOL SHOP MAIN PLAZA | ACME TOOL SHOP MAIN PLAZA CA'') None,
              mk_bank 14 (Some 
                 ''ACME TOOL SHOP MAIN PLAZA CA | ACME TOOL SHOP MAIN PLAZA'') None,
              mk_bank 15 (Some 
                 ''ACME TOOL SHOP MAIN PLAZA CA | ACME TOOL SHOP MAIN PLAZA'') None],
      next_id = 16\<rparr>"

text \<open>
  The pass run twice in succession on the same scope: the deletions counted by the second
  run.
\<close>

definition second_run_deleted ::
  "confirmer \<Rightarrow> (string list \<Rightarrow> string list) \<Rightarrow> store \<Rightarrow> nat \<Rightarrow> string option
     \<Rightarrow> nat option" where
  "second_run_deleted ai order db user_id batch_id =
     (case detect_and_merge_duplicates ai order db user_id batch_id of
        Inl e \<Rightarrow> None
      | Inr (db1, summary1, merged1) \<Rightarrow>
          (case detect_and_merge_duplicates ai order db1 user_id batch_id of
             Inl e \<Rightarrow> None
           | Inr (db2, summary2, merged2) \<Rightarrow> Some (transactions_deleted summary2)))"


section \<open>Properties of the matchers\<close>

lemma scan_banks_result:
  "scan_banks score thr ids bs (bm, bc) = (bm', bc') \<Longrightarrow>
     (bm' = bm \<and> bc' = bc \<and> (\<forall>x\<in>set bs. bt_id x \<notin> ids \<and> thr < score x \<longrightarrow> score x \<le> bc))
   \<or> (\<exists>pre b post. bs = pre @ b # post \<and> bm' = Some b \<and> bc' = score b \<and> bt_id b \<notin> ids
         \<and> thr < score b \<and> bc < score b
         \<and> (\<forall>x\<in>set pre. bt_id x \<notin> ids \<longrightarrow> score x < score b)
         \<and> (\<forall>x\<in>set post. bt_id x \<notin> ids \<longrightarrow> score x \<le> score b))"
proof (induction bs arbitrary: bm bc)
  case Nil
  then show ?case by simp
next
  case (Cons a bs)
  show ?case
  proof (cases "bt_id a \<in> ids")
    case True
    with Cons.prems have "scan_banks score thr ids bs (bm, bc) = (bm', bc')" by simp
    from Cons.IH[OF this] show ?thesis
    proof
      assume "bm' = bm \<and> bc' = bc \<and> (\<forall>x\<in>set bs. bt_id x \<notin> ids \<and> thr < score x \<longrightarrow> score x \<le> bc)"
      with True show ?thesis by auto
    next
      assume "\<exists>pre b post. bs = pre @ b # post \<and> bm' = Some b \<and> bc' = score b \<and> bt_id b \<notin> ids
         \<and> thr < score b \<and> bc < score b
         \<and> (\<forall>x\<in>set pre. bt_id x \<notin> ids \<longrightarrow> score x < score b)
         \<and> (\<forall>x\<in>set post. bt_id x \<notin> ids \<longrightarrow> score x \<le> score b)"
      then obtain pre b post where h: "bs = pre @ b # post" "bm' = Some b" "bc' = score b" "bt_id b \<notin> ids"
         "thr < score b" "bc < score b"
         "\<forall>x\<in>set pre. bt_id x \<notin> ids \<longrightarrow> score x < score b"
         "\<forall>x\<in>set post. bt_id x \<notin> ids \<longrightarrow> score x \<le> score b" by blast
      have "a # bs = (a # pre) @ b # post" using h(1) by simp
      moreover have "\<forall>x\<in>set (a # pre). bt_id x \<notin> ids \<longrightarrow> score x < score b" using h(7) True by simp
      ultimately show ?thesis using h by blast
    qed
  next
    case False
    show ?thesis
    proof (cases "score a > bc \<and> score a > thr")
      case True
      with False Cons.prems have "scan_banks score thr ids bs (Some a, score a) = (bm', bc')" by simp
      from Cons.IH[OF this] show ?thesis
      proof
        assume k: "bm' = Some a \<and> bc' = score a \<and> (\<forall>x\<in>set bs. bt_id x \<notin> ids \<and> thr < score x \<longrightarrow> score x \<le> score a)"
        have "a # bs = [] @ a # bs" by simp
        moreover have "\<forall>x\<in>set bs. bt_id x \<notin> ids \<longrightarrow> score x \<le> score a"
          using k True by (meson le_less_linear less_le_trans less_imp_le order_trans)
        ultimately show ?thesis using k True False by (metis empty_iff list.set(1))
      next
        assume "\<exists>pre b post. bs = pre @ b # post \<and> bm' = Some b \<and> bc' = score b \<and> bt_id b \<notin> ids
         \<and> thr < score b \<and> score a < score b
         \<and> (\<forall>x\<in>set pre. bt_id x \<notin> ids \<longrightarrow> score x < score b)
         \<and> (\<forall>x\<in>set post. bt_id x \<notin> ids \<longrightarrow> score x \<le> score b)"
        then obtain pre b post where h: "bs = pre @ b # post" "bm' = Some b" "bc' = score b" "bt_id b \<notin> ids"
         "thr < score b" "score a < score b"
         "\<forall>x\<in>set pre. bt_id x \<notin> ids \<longrightarrow> score x < score b"
         "\<forall>x\<in>set post. bt_id x \<notin> ids \<longrightarrow> score x \<le> score b" by blast
        have "a # bs = (a # pre) @ b # post" using h(1) by simp
        moreover have "\<forall>x\<in>set (a # pre). bt_id x \<notin> ids \<longrightarrow> score x < score b" using h(7) h(6) by simp
        moreover have "bc < score b" using True h(6) by simp
        ultimately show ?thesis using h by blast
      qed
    next
      case nd: False
      with False Cons.prems have "scan_banks score thr ids bs (bm, bc) = (bm', bc')" by auto
      from Cons.IH[OF this] show ?thesis
      proof
        assume "bm' = bm \<and> bc' = bc \<and> (\<forall>x\<in>set bs. bt_id x \<notin> ids \<and> thr < score x \<longrightarrow> score x \<le> bc)"
        with nd show ?thesis by auto
      next
        assume "\<exists>pre b post. bs = pre @ b # post \<and> bm' = Some b \<and> bc' = score b \<and> bt_id b \<notin> ids
         \<and> thr < score b \<and> bc < score b
         \<and> (\<forall>x\<in>set pre. bt_id x \<notin> ids \<longrightarrow> score x < score b)
         \<and> (\<forall>x\<in>set post. bt_id x \<notin> ids \<longrightarrow> score x \<le> score b)"
        then obtain pre b post where h: "bs = pre @ b # post" "bm' = Some b" "bc' = score b" "bt_id b \<notin> ids"
         "thr < score b" "bc < score b"
         "\<forall>x\<in>set pre. bt_id x \<notin> ids \<longrightarrow> score x < score b"
         "\<forall>x\<in>set post. bt_id x \<notin> ids \<longrightarrow> score x \<le> score b" by blast
        have "a # bs = (a # pre) @ b # post" using h(1) by simp
        moreover have "score a < score b" using nd h(5) h(6) by auto
        then have "\<forall>x\<in>set (a # pre). bt_id x \<notin> ids \<longrightarrow> score x < score b" using h(7) by simp
        ultimately show ?thesis using h by blast
      qed
    qed
  qed
qed
lemma scan_banks_pick:
  assumes "scan_banks score thr ids bs (None, 0) = (Some b, c)"
  shows "\<exists>pre post. bs = pre @ b # post \<and> c = score b \<and> bt_id b \<notin> ids \<and> thr < score b
         \<and> (\<forall>x\<in>set pre. bt_id x \<notin> ids \<longrightarrow> score x < score b)
         \<and> (\<forall>x\<in>set post. bt_id x \<notin> ids \<longrightarrow> score x \<le> score b)"
  using scan_banks_result[OF assms] by auto

lemma scan_banks_none:
  assumes "scan_banks score thr ids bs (None, 0) = (None, c)"
  shows "c = 0 \<and> (\<forall>x\<in>set bs. bt_id x \<notin> ids \<and> thr < score x \<longrightarrow> score x \<le> 0)"
  using scan_banks_result[OF assms] by auto


lemma match_ledgers_conf:
  assumes "match_ledgers score thr banks ls (m, lo, ids) = (m', lo', ids')"
    and "\<And>l b. 0 \<le> score l b \<and> score l b \<le> 1"
    and "\<forall>x\<in>set m \<union> set lo. 0 \<le> tm_confidence x \<and> tm_confidence x \<le> 1"
  shows "\<forall>x\<in>set m' \<union> set lo'. 0 \<le> tm_confidence x \<and> tm_confidence x \<le> 1"
  using assms(1,3)
proof (induction ls arbitrary: m lo ids)
  case Nil
  then show ?case by simp
next
  case (Cons l ls)
  obtain bm c where sc: "scan_banks (score l) thr ids banks (None, 0) = (bm, c)"
    by (cases "scan_banks (score l) thr ids banks (None, 0)") auto
  show ?case
  proof (cases bm)
    case None
    with sc Cons.prems(1)
    have run: "match_ledgers score thr banks ls (m, lo @ [mk_ledger_only l], ids) = (m', lo', ids')"
      by simp
    have "\<forall>x\<in>set m \<union> set (lo @ [mk_ledger_only l]). 0 \<le> tm_confidence x \<and> tm_confidence x \<le> 1"
      using Cons.prems(2) by (auto simp: mk_ledger_only_def)
    from Cons.IH[OF run this] show ?thesis .
  next
    case (Some b)
    with sc Cons.prems(1)
    have run: "match_ledgers score thr banks ls (m @ [mk_matched l b c], lo, insert (bt_id b) ids)
                 = (m', lo', ids')"
      by simp
    from scan_banks_pick[of "score l" thr ids banks b c] sc Some
    have "c = score l b" by auto
    with assms(2)[of l b] have "0 \<le> c \<and> c \<le> 1" by simp
    then have "\<forall>x\<in>set (m @ [mk_matched l b c]) \<union> set lo. 0 \<le> tm_confidence x \<and> tm_confidence x \<le> 1"
      using Cons.prems(2) by (auto simp: mk_matched_def)
    from Cons.IH[OF run this] show ?thesis .
  qed
qed

lemma nat_ratio_le_1:
  assumes "(m::nat) \<le> n"
  shows "(of_nat m :: rat) / of_nat n \<le> 1"
proof (cases "n = 0")
  case True
  then show ?thesis by simp
next
  case False
  then have "(0::rat) < of_nat n" by simp
  moreover have "(of_nat m :: rat) \<le> of_nat n" using assms by simp
  ultimately show ?thesis by (simp add: divide_le_eq_1_pos)
qed

lemma similarity_range:
  "0 \<le> calculate_string_similarity a b \<and> calculate_string_similarity a b \<le> 1"
proof -
  let ?A = "set (split_ws a)" and ?B = "set (split_ws b)"
  have "card (?A \<inter> ?B) \<le> card (?A \<union> ?B)"
    by (rule card_mono) auto
  then have "(of_nat (card (?A \<inter> ?B)) :: rat) / of_nat (card (?A \<union> ?B)) \<le> 1"
    by (rule nat_ratio_le_1)
  moreover have "0 \<le> (of_nat (card (?A \<inter> ?B)) :: rat) / of_nat (card (?A \<union> ?B))"
    by simp
  ultimately show ?thesis
    unfolding calculate_string_similarity_def Let_def by simp
qed

lemma similarity_same:
  assumes "split_ws s \<noteq> []"
  shows "calculate_string_similarity s s = 1"
proof -
  from assms have ne: "s \<noteq> []" by (auto simp: split_ws_def)
  from assms have "set (split_ws s) \<noteq> {}" by simp
  then have "card (set (split_ws s)) \<noteq> 0" by simp
  with ne assms show ?thesis
    unfolding calculate_string_similarity_def Let_def by simp
qed

lemma amount_score_range: "0 \<le> amount_score a b \<and> amount_score a b \<le> 4 / 10"
  by (simp add: amount_score_def split: option.splits)

lemma date_score_range: "0 \<le> date_score a b \<and> date_score a b \<le> 3 / 10"
  by (simp add: date_score_def Let_def split: option.splits)

lemma description_score_range: "0 \<le> description_score a b \<and> description_score a b \<le> 2 / 10"
  using similarity_range[of "lower (the a)" "lower (the b)"]
  by (simp add: description_score_def)

lemma category_score_range: "0 \<le> category_score a b \<and> category_score a b \<le> 1 / 10"
  by (simp add: category_score_def)

lemma confidence_range:
  "0 \<le> calculate_match_confidence l b \<and> calculate_match_confidence l b \<le> 1"
  using amount_score_range[of "lt_amount l" "bt_amount b"]
    date_score_range[of "lt_transaction_date l" "bt_date b"]
    description_score_range[of "lt_description l" "bt_description b"]
    category_score_range[of "lt_category l" "bt_category b"]
  by (simp add: calculate_match_confidence_def Let_def)

lemma ai_verify_range: "0 \<le> ai_verify_match ext l b \<and> ai_verify_match ext l b \<le> 1"
  by (simp add: ai_verify_match_def split: verify_reply.splits)

lemma ai_confidence_range:
  "0 \<le> ai_calculate_match_confidence ext l b \<and> ai_calculate_match_confidence ext l b \<le> 1"
proof -
  have b: "0 \<le> calculate_match_confidence l b" "calculate_match_confidence l b \<le> 1"
    using confidence_range[of l b] by simp_all
  have v: "0 \<le> ai_verify_match ext l b" "ai_verify_match ext l b \<le> 1"
    using ai_verify_range[of ext l b] by simp_all
  show ?thesis
    using b v by (simp add: ai_calculate_match_confidence_def Let_def)
qed

lemma delta_days_same: "delta_days d d = 0"
  by (simp add: delta_days_def)






lemma greedy_match_conf:
  assumes "\<And>l b. 0 \<le> score l b \<and> score l b \<le> 1"
    and "greedy_match score thr ledgers banks = (matched, lo, bo)"
  shows "\<forall>x\<in>set matched \<union> set lo \<union> set bo. 0 \<le> tm_confidence x \<and> tm_confidence x \<le> 1"
proof -
  obtain m l i where r: "match_ledgers score thr banks ledgers ([], [], {}) = (m, l, i)"
    by (cases "match_ledgers score thr banks ledgers ([], [], {})") auto
  from match_ledgers_conf[OF r assms(1)]
  have "\<forall>x\<in>set m \<union> set l. 0 \<le> tm_confidence x \<and> tm_confidence x \<le> 1" by simp
  moreover from assms(2) r have "matched = m" "lo = l"
    "bo = map mk_bank_only (filter (\<lambda>b. bt_id b \<notin> i) banks)"
    by (simp_all add: greedy_match_def)
  ultimately show ?thesis by (auto simp: mk_bank_only_def)
qed

lemmas sample_defs = mk_ledger_def mk_bank_def ex_date_def ledger_blank_def bank_blank_def
  ledger_safeway_def bank_safeway_def bank_safeway_again_def ledger_partial_def
  ledger_exact_def bank_food_def

lemmas score_defs = calculate_match_confidence_def amount_score_def date_score_def
  description_score_def category_score_def truthy_def delta_days_same
  calculate_string_similarity_def split_ws_def isspace_def code_def lower_def lower_char_def

lemma conf_blank: "calculate_match_confidence ledger_blank bank_blank = 7 / 10"
  by (simp add: sample_defs score_defs)

lemma conf_safeway: "calculate_match_confidence ledger_safeway bank_safeway = 9 / 10"
  by (simp add: sample_defs score_defs)

lemma conf_safeway_again: "calculate_match_confidence ledger_safeway bank_safeway_again = 9 / 10"
  by (simp add: sample_defs score_defs)

lemma conf_partial: "calculate_match_confidence ledger_partial bank_food = 8 / 10"
  by (simp add: sample_defs score_defs card_insert_if)

lemma conf_exact: "calculate_match_confidence ledger_exact bank_food = 1"
  by (simp add: sample_defs score_defs)

lemma bank_ids: "bt_id bank_blank = 1" "bt_id bank_safeway = 1" "bt_id bank_safeway_again = 2"
  "bt_id bank_food = 1"
  by (simp_all add: sample_defs)


lemma ai_conf_safeway:
  "ai_calculate_match_confidence verifier_down ledger_safeway bank_safeway = 74 / 100"
  "ai_calculate_match_confidence verifier_down ledger_safeway bank_safeway_again = 74 / 100"
  by (simp_all add: ai_calculate_match_confidence_def ai_verify_match_def verifier_down_def
      conf_safeway conf_safeway_again)

lemma ai_match_safeway_tie:
  "ai_enhanced_match_transactions verifier_down [ledger_safeway] [bank_safeway, bank_safeway_again]
     = ([mk_matched ledger_safeway bank_safeway (74 / 100)], [],
        [mk_bank_only bank_safeway_again])"
  by (simp add: ai_enhanced_match_transactions_def greedy_match_def ai_conf_safeway bank_ids)

text \<open>
  A later ledger row that scores strictly higher does not take the bank row away: the first
  ledger row scores 0.8 and claims it, the second one, which scores 1.0, is left alone.
\<close>

lemma later_higher_score_does_not_reclaim:
  "calculate_match_confidence ledger_partial bank_food
     < calculate_match_confidence ledger_exact bank_food
   \<and> match_transactions [ledger_partial, ledger_exact] [bank_food]
     = ([mk_matched ledger_partial bank_food (8 / 10)], [mk_ledger_only ledger_exact], [])"
  by (simp add: match_transactions_def greedy_match_def conf_partial conf_exact bank_ids)




text \<open>
  Claim C3, as stated, fails: a pair with the same amount, the same date and the same
  empty description scores exactly 0.7, which the strict comparison with the threshold
  rejects, so the ledger row is \<open>ledger_only\<close> and the bank row \<open>bank_only\<close>.
\<close>

theorem identical_blank_pair_not_matched:
  "\<bar>the (lt_amount ledger_blank) - the (bt_amount bank_blank)\<bar> < 1 / 100
   \<and> lt_transaction_date ledger_blank = bt_date bank_blank
   \<and> lt_description ledger_blank = bt_description bank_blank
   \<and> match_transactions [ledger_blank] [bank_blank]
       = ([], [mk_ledger_only ledger_blank], [mk_bank_only bank_blank])"
proof -
  have "match_transactions [ledger_blank] [bank_blank]
       = ([], [mk_ledger_only ledger_blank], [mk_bank_only bank_blank])"
    by (simp add: match_transactions_def greedy_match_def conf_blank bank_ids)
  then show ?thesis by (simp add: sample_defs)
qed

lemma identical_pair_score:
  assumes "lt_amount l = Some x" and "bt_amount b = Some y" and "\<bar>x - y\<bar> < 1 / 100"
    and "lt_transaction_date l = Some d" and "bt_date b = Some d"
    and "lt_description l = Some s" and "bt_description b = Some s"
    and "split_ws (lower s) \<noteq> []"
  shows "9 / 10 \<le> calculate_match_confidence l b"
proof -
  from assms(8) have "lower s \<noteq> []" by (auto simp: split_ws_def)
  then have ne: "s \<noteq> []" by (auto simp: lower_def)
  have "description_score (lt_description l) (bt_description b) = 2 / 10"
    using assms(6,7) ne similarity_same[OF assms(8)]
    by (simp add: description_score_def truthy_def)
  moreover have "amount_score (lt_amount l) (bt_amount b) = 4 / 10"
    using assms(1-3) by (simp add: amount_score_def)
  moreover have "date_score (lt_transaction_date l) (bt_date b) = 3 / 10"
    using assms(4,5) by (simp add: date_score_def delta_days_same)
  moreover have "0 \<le> category_score (lt_category l) (bt_category b)"
    using category_score_range by blast
  ultimately show ?thesis
    by (simp add: calculate_match_confidence_def Let_def)
qed

text \<open>
  Claim C3, amended. When both amounts are present and differ by less than 0.01, both
  dates are present and identical, and the descriptions are identical and hold at least
  one word, the baseline score is at least 0.7 and the baseline matcher, run on the pair,
  classifies it as \<open>matched\<close>.
\<close>

theorem identical_pair_matched:
  assumes "lt_amount l = Some x" and "bt_amount b = Some y" and "\<bar>x - y\<bar> < 1 / 100"
    and "lt_transaction_date l = Some d" and "bt_date b = Some d"
    and "lt_description l = Some s" and "bt_description b = Some s"
    and "split_ws (lower s) \<noteq> []"
  shows "7 / 10 \<le> calculate_match_confidence l b
         \<and> match_transactions [l] [b]
             = ([mk_matched l b (calculate_match_confidence l b)], [], [])"
proof -
  from identical_pair_score[OF assms] have c: "9 / 10 \<le> calculate_match_confidence l b" .
  then have "0 < calculate_match_confidence l b" "7 / 10 < calculate_match_confidence l b"
    by simp_all
  then have "match_transactions [l] [b]
             = ([mk_matched l b (calculate_match_confidence l b)], [], [])"
    by (simp add: match_transactions_def greedy_match_def)
  with c show ?thesis by simp
qed

theorem identical_pair_matched_witness:
  "7 / 10 \<le> calculate_match_confidence ledger_safeway bank_safeway
   \<and> match_transactions [ledger_safeway] [bank_safeway]
       = ([mk_matched ledger_safeway bank_safeway
             (calculate_match_confidence ledger_safeway bank_safeway)], [], [])"
proof -
  have w: "split_ws (lower ''SAFEWAY'') \<noteq> []"
    by (simp add: split_ws_def lower_def lower_char_def isspace_def code_def)
  have a: "\<bar>(4567 / 100 :: rat) - 4567 / 100\<bar> < 1 / 100" by simp
  show ?thesis
    by (rule identical_pair_matched[where x = "4567 / 100" and y = "4567 / 100"
          and d = ex_date and s = "''SAFEWAY''", OF _ _ a _ _ _ _ w])
       (simp_all add: sample_defs)
qed

text \<open>
  Claim C4. Every confidence attached to a match by either matcher, in any of the three
  lists, lies in the closed interval from 0 to 1; for the enhanced matcher this holds
  whatever the external verification call answers.
\<close>

theorem confidence_in_unit_interval:
  "\<forall>m \<in> set (all_matches (match_transactions ledgers banks))
          \<union> set (all_matches (ai_enhanced_match_transactions ext ledgers banks)).
     0 \<le> tm_confidence m \<and> tm_confidence m \<le> 1"
proof -
  obtain m1 l1 b1 where r1: "match_transactions ledgers banks = (m1, l1, b1)"
    by (cases "match_transactions ledgers banks") auto
  obtain m2 l2 b2 where r2: "ai_enhanced_match_transactions ext ledgers banks = (m2, l2, b2)"
    by (cases "ai_enhanced_match_transactions ext ledgers banks") auto
  have "\<forall>x\<in>set m1 \<union> set l1 \<union> set b1. 0 \<le> tm_confidence x \<and> tm_confidence x \<le> 1"
    by (rule greedy_match_conf[of calculate_match_confidence "7 / 10" ledgers banks])
       (use r1 confidence_range in \<open>simp_all add: match_transactions_def\<close>)
  moreover
  have "\<forall>x\<in>set m2 \<union> set l2 \<union> set b2. 0 \<le> tm_confidence x \<and> tm_confidence x \<le> 1"
    by (rule greedy_match_conf[of "ai_calculate_match_confidence ext" "6 / 10" ledgers banks])
       (use r2 ai_confidence_range in \<open>simp_all add: ai_enhanced_match_transactions_def\<close>)
  ultimately show ?thesis
    using r1 r2 by (auto simp: all_matches_def)
qed

theorem confidence_in_unit_interval_witness:
  "mk_matched ledger_safeway bank_safeway (74 / 100)
     \<in> set (all_matches (match_transactions [ledger_safeway] [bank_safeway, bank_safeway_again]))
        \<union> set (all_matches (ai_enhanced_match_transactions verifier_down [ledger_safeway]
                               [bank_safeway, bank_safeway_again]))
   \<and> 0 \<le> tm_confidence (mk_matched ledger_safeway bank_safeway (74 / 100))
   \<and> tm_confidence (mk_matched ledger_safeway bank_safeway (74 / 100)) \<le> 1"
proof -
  have mem: "mk_matched ledger_safeway bank_safeway (74 / 100)
     \<in> set (all_matches (match_transactions [ledger_safeway] [bank_safeway, bank_safeway_again]))
        \<union> set (all_matches (ai_enhanced_match_transactions verifier_down [ledger_safeway]
                               [bank_safeway, bank_safeway_again]))"
    by (simp add: ai_match_safeway_tie all_matches_def)
  from confidence_in_unit_interval[of "[ledger_safeway]" "[bank_safeway, bank_safeway_again]"
      verifier_down] mem
  show ?thesis by blast
qed




section \<open>Properties of the amount parser and of the merger\<close>

lemmas text_defs = strip_def isspace_def isdigit_def is_AZ_def code_def upper_def upper_char_def
  lower_def lower_char_def split_ws_def split_on_def startswith_def

lemma parse_amount_parenthesised:
  "parse_amount_improved ''($45.67)'' = Some (- (4567 / 100))"
  by (simp add: parse_amount_improved_def text_defs parse_decimal_def parse_unsigned_def
      Let_def digits_value_def)

lemma parse_amount_thousands:
  "parse_amount_improved ''1,234.56'' = Some (123456 / 100)"
  by (simp add: parse_amount_improved_def text_defs parse_decimal_def parse_unsigned_def
      Let_def digits_value_def)

text \<open>
  The branch for several decimal points gives the text back, and a text with several
  points is not a decimal: every plain numeric text with more than one point is
  unparseable.
\<close>

lemma split_on_acc_nonempty: "split_on_acc d cur s \<noteq> []"
  by (induction s arbitrary: cur) auto

lemma join_Cons: "ps \<noteq> [] \<Longrightarrow> join sep (p # ps) = p @ sep @ join sep ps"
  by (cases ps) auto

lemma join_split_on_acc: "join [d] (split_on_acc d cur s) = cur @ s"
  by (induction s arbitrary: cur) (auto simp: join_Cons split_on_acc_nonempty)

lemma length_split_on_acc:
  "length (split_on_acc d cur s) = Suc (length (filter (\<lambda>c. c = d) s))"
  by (induction s arbitrary: cur) auto

lemma join_butlast_last:
  "2 \<le> length ps \<Longrightarrow> join sep (butlast ps) @ sep @ last ps = join sep ps"
proof (induction sep ps rule: join.induct)
  case (3 sep p q ps)
  show ?case
  proof (cases ps)
    case Nil
    then show ?thesis by simp
  next
    case (Cons r rs)
    with 3 have "join sep (butlast (q # ps)) @ sep @ last (q # ps) = join sep (q # ps)"
      by simp
    with Cons show ?thesis by simp
  qed
qed simp_all

lemma rebuild_is_identity:
  assumes "1 < length (filter (\<lambda>c. c = CHR ''.'') s)"
  shows "join ''.'' (butlast (split_on (CHR ''.'') s)) @ ''.'' @ last (split_on (CHR ''.'') s) = s"
proof -
  have "2 \<le> length (split_on (CHR ''.'') s)"
    using assms by (simp add: split_on_def length_split_on_acc)
  from join_butlast_last[OF this, of "''.''"] show ?thesis
    by (simp add: split_on_def join_split_on_acc)
qed

lemma digits_hold_no_point:
  "list_all isdigit xs \<Longrightarrow> filter (\<lambda>c. c = CHR ''.'') xs = []"
  by (induction xs) (auto simp: isdigit_def code_def)

lemma takeWhile_digits_no_point:
  "filter (\<lambda>c. c = CHR ''.'') (takeWhile isdigit xs) = []"
  by (induction xs) (auto simp: isdigit_def code_def)

lemma parse_unsigned_points:
  assumes "1 < length (filter (\<lambda>c. c = CHR ''.'') s)"
  shows "parse_unsigned s = None"
proof (cases "dropWhile isdigit s")
  case Nil
  from Nil have "list_all isdigit s"
    by (simp add: list_all_iff)
  then have "filter (\<lambda>c. c = CHR ''.'') s = []"
    by (rule digits_hold_no_point)
  with assms show ?thesis by simp
next
  case (Cons c fr)
  have s: "s = takeWhile isdigit s @ c # fr"
    using Cons takeWhile_dropWhile_id[of isdigit s] by simp
  have "\<not> (c = CHR ''.'' \<and> list_all isdigit fr)"
  proof
    assume h: "c = CHR ''.'' \<and> list_all isdigit fr"
    have "filter (\<lambda>c. c = CHR ''.'') s
            = filter (\<lambda>c. c = CHR ''.'') (takeWhile isdigit s)
              @ filter (\<lambda>c. c = CHR ''.'') (c # fr)"
      by (subst s) simp
    with h have "length (filter (\<lambda>c. c = CHR ''.'') s) = 1"
      by (simp add: takeWhile_digits_no_point digits_hold_no_point)
    with assms show False by simp
  qed
  with Cons show ?thesis by (auto simp: parse_unsigned_def Let_def)
qed

lemma parse_decimal_points:
  assumes "1 < length (filter (\<lambda>c. c = CHR ''.'') s)"
  shows "parse_decimal s = None"
proof (cases s)
  case Nil
  with assms show ?thesis by simp
next
  case (Cons c body)
  show ?thesis
  proof (cases "c = CHR ''-''")
    case True
    with Cons assms have "1 < length (filter (\<lambda>c. c = CHR ''.'') body)" by simp
    from parse_unsigned_points[OF this] Cons True show ?thesis
      by (simp add: parse_decimal_def)
  next
    case False
    with Cons parse_unsigned_points[OF assms] show ?thesis
      by (simp add: parse_decimal_def)
  qed
qed

lemma numeric_text_unchanged:
  assumes "\<forall>c\<in>set s. isdigit c \<or> c = CHR ''.'' \<or> c = CHR ''-''"
  shows "strip s = s" and "filter (\<lambda>c. c \<noteq> CHR ''$'') s = s"
    and "filter (\<lambda>c. c \<noteq> CHR '','') s = s"
    and "CHR ''('' \<notin> set s"
    and "filter (\<lambda>c. isdigit c \<or> c = CHR ''.'' \<or> c = CHR ''-'') s = s"
proof -
  have ns: "\<forall>c\<in>set s. \<not> isspace c"
    using assms by (auto simp: isspace_def isdigit_def code_def)
  then have "dropWhile isspace s = s" by (cases s) auto
  moreover from ns have "dropWhile isspace (rev s) = rev s" by (cases "rev s") auto
  ultimately show "strip s = s" by (simp add: strip_def)
  show "filter (\<lambda>c. c \<noteq> CHR ''$'') s = s"
    using assms by (auto simp: filter_id_conv isdigit_def code_def)
  show "filter (\<lambda>c. c \<noteq> CHR '','') s = s"
    using assms by (auto simp: filter_id_conv isdigit_def code_def)
  show "CHR ''('' \<notin> set s"
    using assms by (auto simp: isdigit_def code_def)
  show "filter (\<lambda>c. isdigit c \<or> c = CHR ''.'' \<or> c = CHR ''-'') s = s"
    using assms by (auto simp: filter_id_conv)
qed

lemma many_points_unparseable:
  assumes "\<forall>c\<in>set s. isdigit c \<or> c = CHR ''.'' \<or> c = CHR ''-''"
    and "1 < length (filter (\<lambda>c. c = CHR ''.'') s)"
  shows "parse_amount_improved s = None"
proof -
  from assms(2) have "s \<noteq> []" by auto
  then show ?thesis
    unfolding parse_amount_improved_def Let_def
    by (simp add: numeric_text_unchanged[OF assms(1)] assms(2)
        rebuild_is_identity[OF assms(2), simplified] parse_decimal_points[OF assms(2)])
qed

text \<open>
  Claim C8 does not hold of the code. The branch for several decimal points splits the
  text at the points and joins the pieces with points again, which gives the text back;
  the decimal constructor then rejects it and the parser answers \<open>None\<close>: the input
  \<open>1.234.56\<close> is unparseable, not 1234.56.
\<close>

theorem parse_amount_two_points_unparseable:
  "parse_amount_improved ''1.234.56'' = None"
  by (simp add: parse_amount_improved_def text_defs parse_decimal_def parse_unsigned_def Let_def)

text \<open>
  Claim C6 does not hold of the code. The merged row takes its description from the join
  only; when the members share one description nothing is written to the field and the
  merged row has none, although the first member has one.
\<close>

theorem merge_loses_shared_description:
  "bt_description bank_safeway = Some ''SAFEWAY''
   \<and> bt_description bank_safeway_again = Some ''SAFEWAY''
   \<and> map_sum id bt_description
        (merge_duplicate_transactions id 3 [bank_safeway, bank_safeway_again]) = Inr None"
  by (simp add: merge_duplicate_transactions_def sample_defs truthy_def)

lemma merge_first_member_fields:
  assumes "merge_duplicate_transactions order new_id (base_tx # others) = Inr m"
  shows "bt_user_id m = bt_user_id base_tx \<and> bt_upload_batch_id m = bt_upload_batch_id base_tx
         \<and> bt_date m = bt_date base_tx \<and> bt_amount m = bt_amount base_tx
         \<and> bt_balance m = bt_balance base_tx
         \<and> bt_transaction_type m = bt_transaction_type base_tx
         \<and> bt_reference_number m = bt_reference_number base_tx"
  using assms by (auto simp: merge_duplicate_transactions_def Let_def)


section \<open>Properties of the duplicate grouper\<close>

lemma add_to_group_new:
  "k \<notin> fst ` set g \<Longrightarrow> add_to_group k tx g = g @ [(k, [tx])]"
  by (induction g) auto

lemma foldl_add_distinct:
  assumes "distinct (map key txs)" and "set (map key txs) \<inter> fst ` set g = {}"
  shows "foldl (\<lambda>groups tx. add_to_group (key tx) tx groups) g txs
           = g @ map (\<lambda>tx. (key tx, [tx])) txs"
  using assms
proof (induction txs arbitrary: g)
  case Nil
  then show ?case by simp
next
  case (Cons t ts)
  from Cons.prems(2) have new: "key t \<notin> fst ` set g" by auto
  have d: "distinct (map key ts)" using Cons.prems(1) by simp
  have "set (map key ts) \<inter> fst ` set (g @ [(key t, [t])]) = {}"
    using Cons.prems by auto
  from Cons.IH[OF d this] new show ?case
    by (simp add: add_to_group_new)
qed

lemma no_shared_key_no_group:
  assumes "distinct (map group_key txs)"
  shows "group_potential_duplicates txs = []"
proof -
  have "foldl (\<lambda>groups tx. add_to_group (group_key tx) tx groups) [] txs
          = map (\<lambda>tx. (group_key tx, [tx])) txs"
    using foldl_add_distinct[of group_key txs "[]"] assms by simp
  then show ?thesis
    by (simp add: group_potential_duplicates_def filter_empty_conv)
qed

lemma no_group_no_change:
  assumes "group_potential_duplicates (query_transactions db user_id batch_id) = []"
  shows "detect_and_merge_duplicates ai order db user_id batch_id
           = Inr (db, \<lparr>total_transactions = length (query_transactions db user_id batch_id),
                        duplicate_groups_found = 0, transactions_merged = 0,
                        transactions_deleted = 0, groups_processed = []\<rparr>, [])"
  using assms by (simp add: detect_and_merge_duplicates_def)

lemma mk_bank_fields:
  "bt_id (mk_bank i d c) = i" "bt_user_id (mk_bank i d c) = 1"
  "bt_upload_batch_id (mk_bank i d c) = None" "bt_date (mk_bank i d c) = Some ex_date"
  "bt_description (mk_bank i d c) = d" "bt_amount (mk_bank i d c) = Some (4567 / 100)"
  "bt_category (mk_bank i d c) = c" "bt_merchant_name (mk_bank i d c) = None"
  by (simp_all add: mk_bank_def)

lemma format_sample_amount: "format_2f (4567 / 100) = ''45.67''"
  by (simp add: format_2f_def round_half_even_def zero_pad_def Let_def)

lemma format_sample_date: "strftime_ymd ex_date = ''2024-01-15''"
  by (simp add: strftime_ymd_def ex_date_def zero_pad_def)

lemma group_key_mk_bank:
  "group_key (mk_bank i (Some d) c)
     = ''45.67_2024-01-15_'' @ take 50 (clean_description_for_grouping d)"
  by (simp add: group_key_def mk_bank_fields format_sample_amount format_sample_date)

lemma cleaned_samples:
  "clean_description_for_grouping ''ACME TOOL SHOP MAIN PLAZA'' = ''ACME TOOL SHOP MAIN PLAZA''"
  "clean_description_for_grouping ''ACME TOOL SHOP MAIN PLAZA CA'' = ''ACME TOOL SHOP MAIN PLAZA''"
  "clean_description_for_grouping ''ACME TOOL SHOP MAIN PLAZA | ACME TOOL SHOP MAIN PLAZA CA''
     = ''ACME TOOL SHOP MAIN PLAZA | ACME TOOL SHOP MAIN PLAZA''"
  "clean_description_for_grouping ''ACME TOOL SHOP MAIN PLAZA CA | ACME TOOL SHOP MAIN PLAZA''
     = ''ACME TOOL SHOP MAIN PLAZA CA | ACME TOOL SHOP MAIN PLAZA''"
  "clean_description_for_grouping ''SAFEWAY #123'' = ''SAFEWAY #123''"
  "clean_description_for_grouping ''SAFEWAY #456'' = ''SAFEWAY #456''"
  by code_simp+

lemma similarity_samples:
  "calculate_string_similarity ''ACME TOOL SHOP MAIN PLAZA'' ''ACME TOOL SHOP MAIN PLAZA CA'' = 5 / 6"
  "calculate_string_similarity ''SAFEWAY #123'' ''SAFEWAY #456'' = 1 / 3"
  by (simp_all add: calculate_string_similarity_def text_defs card_insert_if)

lemma groups_first_run:
  "group_potential_duplicates (rows resubmitted_store)
     = [(''45.67_2024-01-15_ACME TOOL SHOP MAIN PLAZA'', [mk_bank 11 (Some ''ACME TOOL SHOP MAIN PLAZA'') None, mk_bank 12 (Some ''ACME TOOL SHOP MAIN PLAZA CA'') None])]"
  by (simp add: group_potential_duplicates_def resubmitted_store_def group_key_mk_bank
      cleaned_samples)

lemma query_resubmitted: "query_transactions resubmitted_store 1 None = rows resubmitted_store"
  by (simp add: query_transactions_def resubmitted_store_def mk_bank_fields truthy_def)

lemma fallback_first_pair:
  "analyze_duplicates_with_ai ai_unavailable
     [mk_bank 11 (Some ''ACME TOOL SHOP MAIN PLAZA'') None, mk_bank 12 (Some ''ACME TOOL SHOP MAIN PLAZA CA'') None]
     = \<lparr>are_duplicates = True, an_confidence = 9 / 10\<rparr>"
  by (simp add: analyze_duplicates_with_ai_def ai_unavailable_def fallback_duplicate_analysis_def
      mk_bank_fields similarity_samples)

lemma merge_first_pair:
  "merge_duplicate_transactions order 15
     [mk_bank 11 (Some ''ACME TOOL SHOP MAIN PLAZA'') None, mk_bank 12 (Some ''ACME TOOL SHOP MAIN PLAZA CA'') None]
     = Inr (mk_bank 15 (Some (join '' | '' (order [''ACME TOOL SHOP MAIN PLAZA'', ''ACME TOOL SHOP MAIN PLAZA CA'']))) None)"
  by (simp add: merge_duplicate_transactions_def mk_bank_def truthy_def)

lemma first_run:
  "detect_and_merge_duplicates ai_unavailable order resubmitted_store 1 None
     = Inr (\<lparr>rows = [mk_bank 13 (Some ''ACME TOOL SHOP MAIN PLAZA | ACME TOOL SHOP MAIN PLAZA CA'') None,
                      mk_bank 14 (Some ''ACME TOOL SHOP MAIN PLAZA CA | ACME TOOL SHOP MAIN PLAZA'') None,
                      mk_bank 15 (Some (join '' | '' (order [''ACME TOOL SHOP MAIN PLAZA'', ''ACME TOOL SHOP MAIN PLAZA CA'']))) None],
              next_id = 16\<rparr>,
            \<lparr>total_transactions = 4, duplicate_groups_found = 1, transactions_merged = 2,
              transactions_deleted = 1,
              groups_processed = [(''45.67_2024-01-15_ACME TOOL SHOP MAIN PLAZA'', 2, 9 / 10, 15)]\<rparr>,
            [mk_bank 15 (Some (join '' | '' (order [''ACME TOOL SHOP MAIN PLAZA'', ''ACME TOOL SHOP MAIN PLAZA CA'']))) None])"
proof -
  have n: "next_id resubmitted_store = 15" by (simp add: resubmitted_store_def)
  show ?thesis
    unfolding detect_and_merge_duplicates_def query_resubmitted groups_first_run Let_def
    by (simp add: fallback_first_pair merge_first_pair n)
       (simp add: resubmitted_store_def delete_all_def mk_bank_fields)
qed

lemma joined_samples:
  "join '' | '' (id [''ACME TOOL SHOP MAIN PLAZA'', ''ACME TOOL SHOP MAIN PLAZA CA'']) = ''ACME TOOL SHOP MAIN PLAZA | ACME TOOL SHOP MAIN PLAZA CA''"
  "join '' | '' (rev [''ACME TOOL SHOP MAIN PLAZA'', ''ACME TOOL SHOP MAIN PLAZA CA'']) = ''ACME TOOL SHOP MAIN PLAZA CA | ACME TOOL SHOP MAIN PLAZA''"
  by simp_all

lemma second_run_forward:
  "map_sum id (\<lambda>r. transactions_deleted (fst (snd r)))
     (detect_and_merge_duplicates ai_unavailable order store_after_forward 1 None) = Inr 1"
proof -
  have q: "query_transactions store_after_forward 1 None = rows store_after_forward"
    by (simp add: query_transactions_def store_after_forward_def mk_bank_fields truthy_def)
  have g: "group_potential_duplicates (rows store_after_forward)
     = [(''45.67_2024-01-15_ACME TOOL SHOP MAIN PLAZA | ACME TOOL SHOP MAIN PL'',
         [mk_bank 13 (Some ''ACME TOOL SHOP MAIN PLAZA | ACME TOOL SHOP MAIN PLAZA CA'') None, mk_bank 15 (Some ''ACME TOOL SHOP MAIN PLAZA | ACME TOOL SHOP MAIN PLAZA CA'') None])]"
    by (simp add: group_potential_duplicates_def store_after_forward_def group_key_mk_bank
      cleaned_samples)
  have a: "analyze_duplicates_with_ai ai_unavailable
     [mk_bank 13 (Some ''ACME TOOL SHOP MAIN PLAZA | ACME TOOL SHOP MAIN PLAZA CA'') None, mk_bank 15 (Some ''ACME TOOL SHOP MAIN PLAZA | ACME TOOL SHOP MAIN PLAZA CA'') None]
     = \<lparr>are_duplicates = True, an_confidence = 1\<rparr>"
    by (simp add: analyze_duplicates_with_ai_def ai_unavailable_def
        fallback_duplicate_analysis_def mk_bank_fields)
  show ?thesis
    unfolding detect_and_merge_duplicates_def q g Let_def
    by (simp add: a merge_duplicate_transactions_def)
qed

lemma second_run_backward:
  "map_sum id (\<lambda>r. transactions_deleted (fst (snd r)))
     (detect_and_merge_duplicates ai_unavailable order store_after_backward 1 None) = Inr 1"
proof -
  have q: "query_transactions store_after_backward 1 None = rows store_after_backward"
    by (simp add: query_transactions_def store_after_backward_def mk_bank_fields truthy_def)
  have g: "group_potential_duplicates (rows store_after_backward)
     = [(''45.67_2024-01-15_ACME TOOL SHOP MAIN PLAZA CA | ACME TOOL SHOP MAIN'',
         [mk_bank 14 (Some ''ACME TOOL SHOP MAIN PLAZA CA | ACME TOOL SHOP MAIN PLAZA'') None, mk_bank 15 (Some ''ACME TOOL SHOP MAIN PLAZA CA | ACME TOOL SHOP MAIN PLAZA'') None])]"
    by (simp add: group_potential_duplicates_def store_after_backward_def group_key_mk_bank
      cleaned_samples)
  have a: "analyze_duplicates_with_ai ai_unavailable
     [mk_bank 14 (Some ''ACME TOOL SHOP MAIN PLAZA CA | ACME TOOL SHOP MAIN PLAZA'') None, mk_bank 15 (Some ''ACME TOOL SHOP MAIN PLAZA CA | ACME TOOL SHOP MAIN PLAZA'') None]
     = \<lparr>are_duplicates = True, an_confidence = 1\<rparr>"
    by (simp add: analyze_duplicates_with_ai_def ai_unavailable_def
        fallback_duplicate_analysis_def mk_bank_fields)
  show ?thesis
    unfolding detect_and_merge_duplicates_def q g Let_def
    by (simp add: a merge_duplicate_transactions_def)
qed


section \<open>Claims on the duplicate pass and on ingestion\<close>

text \<open>
  Claim C5, as stated, fails. With the external confirmation unavailable, the first run on
  the store \<open>resubmitted_store\<close> merges the statement line that appears with and
  without its state code. The merged row carries the joined description, and with it a
  grouping key of its own, which it shares with the row an earlier merge of the same two
  lines has left. The second run merges those two and counts one deletion, for either order
  in which the join takes the two descriptions.
\<close>

theorem second_run_still_deletes:
  "second_run_deleted ai_unavailable id resubmitted_store 1 None = Some 1
   \<and> second_run_deleted ai_unavailable rev resubmitted_store 1 None = Some 1"
proof -
  have f: "detect_and_merge_duplicates ai_unavailable id resubmitted_store 1 None
     = Inr (store_after_forward,
            \<lparr>total_transactions = 4, duplicate_groups_found = 1, transactions_merged = 2,
              transactions_deleted = 1,
              groups_processed = [(''45.67_2024-01-15_ACME TOOL SHOP MAIN PLAZA'', 2, 9 / 10, 15)]\<rparr>,
            [mk_bank 15 (Some ''ACME TOOL SHOP MAIN PLAZA | ACME TOOL SHOP MAIN PLAZA CA'') None])"
    unfolding first_run joined_samples store_after_forward_def by simp
  have b: "detect_and_merge_duplicates ai_unavailable rev resubmitted_store 1 None
     = Inr (store_after_backward,
            \<lparr>total_transactions = 4, duplicate_groups_found = 1, transactions_merged = 2,
              transactions_deleted = 1,
              groups_processed = [(''45.67_2024-01-15_ACME TOOL SHOP MAIN PLAZA'', 2, 9 / 10, 15)]\<rparr>,
            [mk_bank 15 (Some ''ACME TOOL SHOP MAIN PLAZA CA | ACME TOOL SHOP MAIN PLAZA'') None])"
    unfolding first_run joined_samples store_after_backward_def by simp
  have "second_run_deleted ai_unavailable id resubmitted_store 1 None = Some 1"
    using second_run_forward[of id]
    unfolding second_run_deleted_def f
    by (cases "detect_and_merge_duplicates ai_unavailable id store_after_forward 1 None")
       auto
  moreover have "second_run_deleted ai_unavailable rev resubmitted_store 1 None = Some 1"
    using second_run_backward[of rev]
    unfolding second_run_deleted_def b
    by (cases "detect_and_merge_duplicates ai_unavailable rev store_after_backward 1 None")
       auto
  ultimately show ?thesis by simp
qed

text \<open>
  Claim C5, amended. On a record set in which no two records share a grouping key, so that
  every group has a single member, the pass deletes nothing, creates no merged record and
  leaves the store as it is, whatever the external confirmation would answer.
\<close>

theorem single_member_groups_no_deletion:
  assumes "distinct (map group_key (query_transactions db user_id batch_id))"
  shows "detect_and_merge_duplicates ai order db user_id batch_id
           = Inr (db, \<lparr>total_transactions = length (query_transactions db user_id batch_id),
                        duplicate_groups_found = 0, transactions_merged = 0,
                        transactions_deleted = 0, groups_processed = []\<rparr>, [])"
  by (rule no_group_no_change) (rule no_shared_key_no_group[OF assms])

lemma group_key_safeway:
  "group_key safeway_123 = ''45.67_2024-01-15_SAFEWAY #123''"
  "group_key safeway_456 = ''45.67_2024-01-15_SAFEWAY #456''"
  by (simp_all add: safeway_123_def safeway_456_def group_key_mk_bank cleaned_samples)

theorem single_member_groups_no_deletion_witness:
  "distinct (map group_key
      (query_transactions \<lparr>rows = [safeway_123, safeway_456], next_id = 3\<rparr> 1 None))
   \<and> detect_and_merge_duplicates ai_unavailable id
         \<lparr>rows = [safeway_123, safeway_456], next_id = 3\<rparr> 1 None
       = Inr (\<lparr>rows = [safeway_123, safeway_456], next_id = 3\<rparr>,
              \<lparr>total_transactions = 2, duplicate_groups_found = 0, transactions_merged = 0,
                transactions_deleted = 0, groups_processed = []\<rparr>, [])"
proof -
  have q: "query_transactions \<lparr>rows = [safeway_123, safeway_456], next_id = 3\<rparr> 1 None
             = [safeway_123, safeway_456]"
    by (simp add: query_transactions_def safeway_123_def safeway_456_def mk_bank_fields
        truthy_def)
  have d: "distinct (map group_key
      (query_transactions \<lparr>rows = [safeway_123, safeway_456], next_id = 3\<rparr> 1 None))"
    unfolding q by (simp add: group_key_safeway)
  from single_member_groups_no_deletion[OF d, of ai_unavailable id] d
  show ?thesis unfolding q by simp
qed

text \<open>
  Claim C7, as stated, fails in its first part: the cleaning keeps the trailing
  \<open>#123\<close> and \<open>#456\<close>, the two rows get different grouping keys and the grouper
  returns no candidate group for them.
\<close>

theorem safeway_rows_not_grouped:
  "bt_amount safeway_123 = bt_amount safeway_456
   \<and> bt_date safeway_123 = bt_date safeway_456
   \<and> bt_description safeway_123 = Some ''SAFEWAY #123''
   \<and> bt_description safeway_456 = Some ''SAFEWAY #456''
   \<and> group_key safeway_123 \<noteq> group_key safeway_456
   \<and> group_potential_duplicates [safeway_123, safeway_456] = []"
proof -
  have "group_potential_duplicates [safeway_123, safeway_456] = []"
    by (rule no_shared_key_no_group) (simp add: group_key_safeway)
  then show ?thesis
    by (simp add: group_key_safeway) (simp add: safeway_123_def safeway_456_def mk_bank_fields)
qed

lemma differing_reference_keys:
  assumes "bt_amount a = bt_amount b" and "bt_date a = bt_date b"
    and "bt_description a = Some ''SAFEWAY #123''"
    and "bt_description b = Some ''SAFEWAY #456''"
  shows "group_key a \<noteq> group_key b"
  using assms by (simp add: group_key_def cleaned_samples)

text \<open>
  Claim C7, amended. Two bank rows with identical amount and date whose descriptions are
  \<open>SAFEWAY #123\<close> and \<open>SAFEWAY #456\<close> get different grouping keys, so the grouper
  puts them in no candidate group and the pass on a store holding the two leaves both in
  place; their word-overlap similarity is 1/3, below 0.8, and the deterministic fallback,
  applied to the pair, does not confirm them as duplicates either.
\<close>

theorem safeway_rows_not_merged:
  assumes "bt_amount a = bt_amount b" and "bt_date a = bt_date b"
    and "bt_description a = Some ''SAFEWAY #123''"
    and "bt_description b = Some ''SAFEWAY #456''"
  shows "group_key a \<noteq> group_key b
         \<and> group_potential_duplicates [a, b] = []
         \<and> calculate_string_similarity ''SAFEWAY #123'' ''SAFEWAY #456'' = 1 / 3
         \<and> \<not> are_duplicates (fallback_duplicate_analysis [a, b])
         \<and> map_sum id fst
               (detect_and_merge_duplicates ai order \<lparr>rows = [a, b], next_id = n\<rparr>
                  user_id batch_id)
             = Inr \<lparr>rows = [a, b], next_id = n\<rparr>"
proof -
  have k: "group_key a \<noteq> group_key b"
    by (rule differing_reference_keys[OF assms])
  then have d: "distinct (map group_key [a, b])" by simp
  have g: "group_potential_duplicates [a, b] = []"
    by (rule no_shared_key_no_group[OF d])
  have f: "\<not> are_duplicates (fallback_duplicate_analysis [a, b])"
    using assms(3,4) by (simp add: fallback_duplicate_analysis_def similarity_samples Let_def)
  have "distinct (map group_key
          (query_transactions \<lparr>rows = [a, b], next_id = n\<rparr> user_id batch_id))"
    unfolding query_transactions_def using d by (simp add: distinct_map_filter)
  then have "group_potential_duplicates
          (query_transactions \<lparr>rows = [a, b], next_id = n\<rparr> user_id batch_id) = []"
    by (rule no_shared_key_no_group)
  then have "map_sum id fst
               (detect_and_merge_duplicates ai order \<lparr>rows = [a, b], next_id = n\<rparr>
                  user_id batch_id)
             = Inr \<lparr>rows = [a, b], next_id = n\<rparr>"
    by (simp add: no_group_no_change)
  with k g f show ?thesis by (simp add: similarity_samples)
qed

theorem safeway_rows_not_merged_witness:
  "group_key safeway_123 \<noteq> group_key safeway_456
   \<and> group_potential_duplicates [safeway_123, safeway_456] = []
   \<and> calculate_string_similarity ''SAFEWAY #123'' ''SAFEWAY #456'' = 1 / 3
   \<and> \<not> are_duplicates (fallback_duplicate_analysis [safeway_123, safeway_456])
   \<and> map_sum id fst
         (detect_and_merge_duplicates ai_unavailable id
            \<lparr>rows = [safeway_123, safeway_456], next_id = 3\<rparr> 1 None)
       = Inr \<lparr>rows = [safeway_123, safeway_456], next_id = 3\<rparr>"
  by (rule safeway_rows_not_merged)
     (simp_all add: safeway_123_def safeway_456_def mk_bank_fields)

text \<open>
  Claim C9, as stated, fails. For an upload of no bytes the decoding succeeds, the
  traditional parser catches the sniffer's error and returns no rows, and the response
  counts no failure and lists no error.
\<close>

theorem empty_upload_counts_no_failure:
  "resp_total_transactions (process_csv_upload offline_env ''batch-1'' []) = 0
   \<and> resp_successful_imports (process_csv_upload offline_env ''batch-1'' []) = 0
   \<and> resp_failed_imports (process_csv_upload offline_env ''batch-1'' []) = 0
   \<and> resp_errors (process_csv_upload offline_env ''batch-1'' []) = []"
  by (simp add: process_csv_upload_def bytes_decode_def parse_csv_traditional_def
      sniffer_sniff_def offline_env_def)

text \<open>
  Claim C9, amended. An ingestion call with an upload of no bytes, for which the assisted
  parse yields no records, returns the structured response with total 0, succeeded 0,
  failed 0, no error message and the batch identifier; it does not raise.
\<close>

theorem empty_upload_response:
  assumes "parse_csv_with_openai env [] = []"
  shows "process_csv_upload env batch_id []
           = \<lparr>resp_batch_id = batch_id, resp_total_transactions = 0,
               resp_successful_imports = 0, resp_failed_imports = 0, resp_errors = []\<rparr>"
  using assms
  by (simp add: process_csv_upload_def bytes_decode_def parse_csv_traditional_def
      sniffer_sniff_def)

theorem empty_upload_response_witness:
  "parse_csv_with_openai offline_env [] = []
   \<and> process_csv_upload offline_env ''batch-1'' []
       = \<lparr>resp_batch_id = ''batch-1'', resp_total_transactions = 0,
           resp_successful_imports = 0, resp_failed_imports = 0, resp_errors = []\<rparr>"
proof -
  have h: "parse_csv_with_openai offline_env [] = []" by (simp add: offline_env_def)
  from empty_upload_response[OF h, of "''batch-1''"] h show ?thesis by simp
qed

text \<open>Undecodable bytes are what gives one failure and one error message.\<close>

lemma undecodable_upload_response:
  assumes "csv_content \<noteq> []" and "decode env csv_content = Inl e"
  shows "process_csv_upload env batch_id csv_content
           = \<lparr>resp_batch_id = batch_id, resp_total_transactions = 0,
               resp_successful_imports = 0, resp_failed_imports = 1,
               resp_errors = [''CSV parsing error: '' @ e]\<rparr>"
  using assms by (simp add: process_csv_upload_def bytes_decode_def)


end
